theory Spec2Isabelle
  imports Main
begin

section \<open>JSON values and Python exceptions\<close>

text \<open>
  \<^verbatim>\<open>server.py\<close> reads its command table with \<^verbatim>\<open>json.load\<close> and each request body with
  \<^verbatim>\<open>request.json()\<close>, so every value the handler touches is a JSON value. Numbers are
  modelled as integers (a fractional JSON number is outside the model). A JSON object is
  kept as the list of its members; a Python \<^verbatim>\<open>dict\<close> that is only looked up by key
  (\<^verbatim>\<open>COMMANDS\<close>, the request \<^verbatim>\<open>data\<close>, \<^verbatim>\<open>args\<close>) is a map. A Python string is kept as
  the bytes of its UTF-8 encoding.
\<close>

datatype json =
    JNull
  | JBool bool
  | JInt int
  | JStr string
  | JArr "json list"
  | JObj "(string \<times> json) list"

type_synonym pydict = "string \<rightharpoonup> json"

text \<open>
  The exceptions that can leave \<^verbatim>\<open>str.format\<close> and the handler. \<open>KeyError\<close> carries its
  \<^verbatim>\<open>args[0]\<close>, the key that was not found. \<open>PositionalError\<close> stands for the failure of
  a positional replacement field (\<^verbatim>\<open>{}\<close>, \<^verbatim>\<open>{0}\<close>): the handler calls
  \<^verbatim>\<open>format(**args)\<close> with no positional argument, so Python raises \<^verbatim>\<open>IndexError\<close>
  (or \<^verbatim>\<open>ValueError\<close> when the index has too many digits); in both cases it is not a
  \<^verbatim>\<open>KeyError\<close>. \<open>OutsideModel\<close> is the result for a replacement field with an attribute
  or index access, a conversion or a format specification whose argument was found and
  whose accesses succeeded: what Python does from there on is not modelled.
\<close>

datatype py_exception =
    KeyError string
  | ValueError
  | PositionalError
  | AttributeError
  | TypeError
  | OutsideModel

section \<open>UTF-8\<close>

text \<open>
  The strict UTF-8 decoder of Python, on the values of the bytes: the code points, or
  the first error with the positions \<^verbatim>\<open>start\<close> and \<^verbatim>\<open>end\<close> and the reason that
  \<^verbatim>\<open>UnicodeDecodeError\<close> reports. The first argument is the position of the next byte.
\<close>

datatype decode_error = DecodeError nat nat string

definition continuation :: "nat \<Rightarrow> bool" where
  "continuation b = (0x80 \<le> b \<and> b < 0xC0)"

definition emit :: "nat \<Rightarrow> decode_error + nat list \<Rightarrow> decode_error + nat list" where
  "emit cp r = (case r of Inl e \<Rightarrow> Inl e | Inr cps \<Rightarrow> Inr (cp # cps))"

fun utf8_decode :: "nat \<Rightarrow> nat list \<Rightarrow> decode_error + nat list" where
  "utf8_decode pos [] = Inr []"
| "utf8_decode pos (b # bs) =
     (if b < 0x80 then emit b (utf8_decode (pos + 1) bs)
      else if b < 0xC2 then Inl (DecodeError pos (pos + 1) ''invalid start byte'')
      else if b < 0xE0 then
        (case bs of
           [] \<Rightarrow> Inl (DecodeError pos (pos + 1) ''unexpected end of data'')
         | b2 # r \<Rightarrow>
             if \<not> continuation b2
             then Inl (DecodeError pos (pos + 1) ''invalid continuation byte'')
             else emit ((b - 0xC0) * 64 + (b2 - 0x80)) (utf8_decode (pos + 2) r))
      else if b < 0xF0 then
        (case bs of
           [] \<Rightarrow> Inl (DecodeError pos (pos + 1) ''unexpected end of data'')
         | b2 # r2 \<Rightarrow>
             if \<not> continuation b2 \<or> (b = 0xE0 \<and> b2 < 0xA0) \<or> (b = 0xED \<and> 0xA0 \<le> b2)
             then Inl (DecodeError pos (pos + 1) ''invalid continuation byte'')
             else
               (case r2 of
                  [] \<Rightarrow> Inl (DecodeError pos (pos + 2) ''unexpected end of data'')
                | b3 # r \<Rightarrow>
                    if \<not> continuation b3
                    then Inl (DecodeError pos (pos + 2) ''invalid continuation byte'')
                    else emit ((b - 0xE0) * 4096 + (b2 - 0x80) * 64 + (b3 - 0x80))
                           (utf8_decode (pos + 3) r)))
      else if b < 0xF5 then
        (case bs of
           [] \<Rightarrow> Inl (DecodeError pos (pos + 1) ''unexpected end of data'')
         | b2 # r2 \<Rightarrow>
             if \<not> continuation b2 \<or> (b = 0xF0 \<and> b2 < 0x90) \<or> (b = 0xF4 \<and> 0x90 \<le> b2)
             then Inl (DecodeError pos (pos + 1) ''invalid continuation byte'')
             else
               (case r2 of
                  [] \<Rightarrow> Inl (DecodeError pos (pos + 2) ''unexpected end of data'')
                | b3 # r3 \<Rightarrow>
                    if \<not> continuation b3
                    then Inl (DecodeError pos (pos + 2) ''invalid continuation byte'')
                    else
                      (case r3 of
                         [] \<Rightarrow> Inl (DecodeError pos (pos + 3) ''unexpected end of data'')
                       | b4 # r \<Rightarrow>
                           if \<not> continuation b4
                           then Inl (DecodeError pos (pos + 3) ''invalid continuation byte'')
                           else emit ((b - 0xF0) * 262144 + (b2 - 0x80) * 4096
                                        + (b3 - 0x80) * 64 + (b4 - 0x80))
                                  (utf8_decode (pos + 4) r))))
      else Inl (DecodeError pos (pos + 1) ''invalid start byte''))"

definition code_points :: "string \<Rightarrow> decode_error + nat list" where
  "code_points s = utf8_decode 0 (map of_char s)"

text \<open>
  The decimal digits of Unicode (version 14.0, the table of Python 3.11), by the code
  point of the digit zero of each script: \<^verbatim>\<open>str.isdecimal\<close>.
\<close>

definition decimal_zeros :: "nat list" where
  "decimal_zeros =
     [0x30, 0x660, 0x6F0, 0x7C0, 0x966, 0x9E6, 0xA66, 0xAE6,
      0xB66, 0xBE6, 0xC66, 0xCE6, 0xD66, 0xDE6, 0xE50, 0xED0,
      0xF20, 0x1040, 0x1090, 0x17E0, 0x1810, 0x1946, 0x19D0, 0x1A80,
      0x1A90, 0x1B50, 0x1BB0, 0x1C40, 0x1C50, 0xA620, 0xA8D0, 0xA900,
      0xA9D0, 0xA9F0, 0xAA50, 0xABF0, 0xFF10, 0x104A0, 0x10D30, 0x11066,
      0x110F0, 0x11136, 0x111D0, 0x112F0, 0x11450, 0x114D0, 0x11650, 0x116C0,
      0x11730, 0x118E0, 0x11950, 0x11C50, 0x11D50, 0x11DA0, 0x16A60, 0x16AC0,
      0x16B50, 0x1D7CE, 0x1D7D8, 0x1D7E2, 0x1D7EC, 0x1D7F6, 0x1E140, 0x1E2F0,
      0x1E950, 0x1FBF0]"

definition decimal_digit :: "nat \<Rightarrow> bool" where
  "decimal_digit cp = list_ex (\<lambda>zero. zero \<le> cp \<and> cp < zero + 10) decimal_zeros"

section \<open>The template resolver: \<^verbatim>\<open>cmd_template.format(**args)\<close>\<close>

text \<open>
  Python scans a format string from left to right. Outside a replacement field, \<^verbatim>\<open>{{\<close>
  and \<^verbatim>\<open>}}\<close> stand for one brace, a single \<^verbatim>\<open>}\<close> is an error, and a single \<^verbatim>\<open>{\<close>
  opens a replacement field: a field name, an optional conversion after \<^verbatim>\<open>!\<close> and an
  optional format specification after \<^verbatim>\<open>:\<close>, up to the closing \<^verbatim>\<open>}\<close>.

  \<open>scan_name\<close> reads the field name: it ends at \<^verbatim>\<open>}\<close>, \<^verbatim>\<open>:\<close> or \<^verbatim>\<open>!\<close>, which is
  returned with the text after it. After \<^verbatim>\<open>[\<close> everything up to the next \<^verbatim>\<open>]\<close> belongs to
  the name. \<^verbatim>\<open>{\<close> in the name and the end of the string are errors (\<open>None\<close>).
\<close>

function scan_name :: "string \<Rightarrow> (string \<times> char \<times> string) option" where
  "scan_name [] = None"
| "scan_name (c # cs) =
     (if c = CHR ''{'' then None
      else if c = CHR ''}'' \<or> c = CHR '':'' \<or> c = CHR ''!'' then Some ([], c, cs)
      else if c = CHR ''['' then
        (case scan_name (dropWhile (\<lambda>d. d \<noteq> CHR '']'') cs) of
           None \<Rightarrow> None
         | Some (name, t, rest) \<Rightarrow>
             Some (c # takeWhile (\<lambda>d. d \<noteq> CHR '']'') cs @ name, t, rest))
      else
        (case scan_name cs of
           None \<Rightarrow> None
         | Some (name, t, rest) \<Rightarrow> Some (c # name, t, rest)))"
  by pat_completeness auto
termination
  by (relation "measure length") (auto simp: less_Suc_eq_le length_dropWhile_le)

text \<open>
  \<open>scan_spec\<close> reads a format specification up to the brace that closes the field,
  counting nested braces, and returns the text after it.
\<close>

fun scan_spec :: "nat \<Rightarrow> string \<Rightarrow> string option" where
  "scan_spec count [] = None"
| "scan_spec count (c # cs) =
     (if c = CHR ''{'' then scan_spec (Suc count) cs
      else if c = CHR ''}'' then (if count = 1 then Some cs else scan_spec (count - 1) cs)
      else scan_spec count cs)"

text \<open>
  \<open>parse_field\<close> reads a replacement field after its opening brace: the field name,
  whether a conversion or a format specification follows it, and the text after the
  field. \<open>None\<close> is the \<^verbatim>\<open>ValueError\<close> of a malformed field.
\<close>

definition parse_field :: "string \<Rightarrow> (string \<times> bool \<times> string) option" where
  "parse_field cs =
     (case scan_name cs of
        None \<Rightarrow> None
      | Some (name, t, rest) \<Rightarrow>
          if t = CHR ''}'' then Some (name, False, rest)
          else if t = CHR ''!'' then
            (case rest of
               [] \<Rightarrow> None
             | conversion # rest1 \<Rightarrow>
                 (case rest1 of
                    [] \<Rightarrow> None
                  | d # rest2 \<Rightarrow>
                      if d = CHR ''}'' then Some (name, True, rest2)
                      else if d \<noteq> CHR '':'' then None
                      else map_option (\<lambda>r. (name, True, r)) (scan_spec 1 rest2)))
          else map_option (\<lambda>r. (name, True, r)) (scan_spec 1 rest))"

lemma scan_name_shorter:
  "scan_name cs = Some (name, t, rest) \<Longrightarrow> length rest < length cs"
proof (induction cs arbitrary: name t rest rule: scan_name.induct)
  case 1
  then show ?case by simp
next
  case (2 c cs)
  have "length (dropWhile (\<lambda>d. d \<noteq> CHR '']'') cs) \<le> length cs"
    by (rule length_dropWhile_le)
  with 2 show ?case
    by (fastforce split: if_splits option.splits prod.splits)
qed

lemma scan_spec_shorter:
  "scan_spec count cs = Some rest \<Longrightarrow> length rest < length cs"
  by (induction count cs rule: scan_spec.induct) (fastforce split: if_splits)+

lemma parse_field_shorter:
  "parse_field cs = Some (name, extended, rest) \<Longrightarrow> length rest < length cs"
  unfolding parse_field_def
  by (fastforce split: option.splits prod.splits if_splits list.splits
        dest!: scan_name_shorter scan_spec_shorter)

text \<open>
  A field name starts with the name of the argument, up to the first \<^verbatim>\<open>.\<close> or \<^verbatim>\<open>[\<close>; the
  rest are attribute and index accesses. An argument name that is empty or made of
  decimal digits only selects a positional argument.
\<close>

definition positional_name :: "string \<Rightarrow> bool" where
  "positional_name name =
     (case code_points name of
        Inr cps \<Rightarrow> list_all decimal_digit cps
      | Inl e \<Rightarrow> False)"

text \<open>
  The items \<^verbatim>\<open>str.format\<close> works through: a literal character; a plain field
  \<^verbatim>\<open>{name}\<close> with a keyword name; a field with accesses, a conversion or a format
  specification (its argument name and its accesses); a positional field; a malformed
  brace or field.
\<close>

datatype markup =
    Literal char
  | Keyword string
  | Extended string string
  | Positional
  | Malformed

definition classify_field :: "string \<Rightarrow> bool \<Rightarrow> markup" where
  "classify_field field_name extended =
     (let first = takeWhile (\<lambda>c. c \<noteq> CHR ''.'' \<and> c \<noteq> CHR ''['') field_name;
          accesses = dropWhile (\<lambda>c. c \<noteq> CHR ''.'' \<and> c \<noteq> CHR ''['') field_name
      in if positional_name first then Positional
         else if accesses = [] \<and> \<not> extended then Keyword first
         else Extended first accesses)"

fun continues :: "markup \<Rightarrow> bool" where
  "continues (Literal c) = True"
| "continues (Keyword n) = True"
| "continues m = False"

text \<open>
  \<open>markup_iter\<close> is the sequence of the items in order. The scan is lazy, and the list
  ends with the first item after which the model does not follow \<^verbatim>\<open>format\<close>: a malformed
  brace or field and a positional field fail whatever the arguments are, and a field
  with accesses, a conversion or a format specification is followed up to the error it
  raises or the point where its value would be rendered.
\<close>

function markup_iter :: "string \<Rightarrow> markup list" where
  "markup_iter [] = []"
| "markup_iter (c # cs) =
     (if c = CHR ''{'' then
        (case cs of
           [] \<Rightarrow> [Malformed]
         | d # ds \<Rightarrow>
             if d = CHR ''{'' then Literal CHR ''{'' # markup_iter ds
             else (case parse_field cs of
                     None \<Rightarrow> [Malformed]
                   | Some (name, extended, rest) \<Rightarrow>
                       if continues (classify_field name extended)
                       then classify_field name extended # markup_iter rest
                       else [classify_field name extended]))
      else if c = CHR ''}'' then
        (case cs of
           [] \<Rightarrow> [Malformed]
         | d # ds \<Rightarrow>
             if d = CHR ''}'' then Literal CHR ''}'' # markup_iter ds
             else [Malformed])
      else Literal c # markup_iter cs)"
  by pat_completeness auto
termination
  by (relation "measure length") (auto dest!: parse_field_shorter)

text \<open>
  A replacement field with an empty format specification renders its value with
  \<^verbatim>\<open>format(value, '')\<close>, which is \<^verbatim>\<open>str(value)\<close>: a string is inserted as it is,
  \<^verbatim>\<open>None\<close>, a boolean and an integer by their Python spelling. The text of a list or a
  dict (their \<^verbatim>\<open>repr\<close>) is taken as the parameter \<open>repr\<close>; \<^verbatim>\<open>str\<close> of a JSON value never
  raises.
\<close>

fun show_nat :: "nat \<Rightarrow> string" where
  "show_nat n =
     (if n < 10 then [''0123456789'' ! n]
      else show_nat (n div 10) @ [''0123456789'' ! (n mod 10)])"

definition show_int :: "int \<Rightarrow> string" where
  "show_int i = (if i < 0 then CHR ''-'' # show_nat (nat (- i)) else show_nat (nat i))"

definition format_value :: "(json \<Rightarrow> string) \<Rightarrow> json \<Rightarrow> string" where
  "format_value repr v =
     (case v of
        JStr s \<Rightarrow> s
      | JNull \<Rightarrow> ''None''
      | JBool b \<Rightarrow> (if b then ''True'' else ''False'')
      | JInt i \<Rightarrow> show_int i
      | _ \<Rightarrow> repr v)"

text \<open>
  The accesses of a field, applied to the value of its argument. An index \<^verbatim>\<open>[key]\<close>
  whose key is not a number looks the key up in a dict (\<^verbatim>\<open>KeyError(key)\<close> when it is
  missing) and is a \<^verbatim>\<open>TypeError\<close> on any other JSON value; an empty key and a character
  other than \<^verbatim>\<open>.\<close> or \<^verbatim>\<open>[\<close> after \<^verbatim>\<open>]\<close> are a \<^verbatim>\<open>ValueError\<close>. An attribute access and a
  numeric index are not modelled. The members of a \<open>JObj\<close> are the items of the parsed
  dict, so their keys are distinct.
\<close>

function get_items :: "string \<Rightarrow> json \<Rightarrow> py_exception + json" where
  "get_items [] v = Inr v"
| "get_items (c # cs) v =
     (if c = CHR ''.'' then Inl OutsideModel
      else if c = CHR ''['' then
        (if CHR '']'' \<notin> set cs then Inl ValueError
         else if takeWhile (\<lambda>d. d \<noteq> CHR '']'') cs = [] then Inl ValueError
         else if positional_name (takeWhile (\<lambda>d. d \<noteq> CHR '']'') cs) then Inl OutsideModel
         else
           (case v of
              JObj kvs \<Rightarrow>
                (case map_of kvs (takeWhile (\<lambda>d. d \<noteq> CHR '']'') cs) of
                   None \<Rightarrow> Inl (KeyError (takeWhile (\<lambda>d. d \<noteq> CHR '']'') cs))
                 | Some v' \<Rightarrow> get_items (drop 1 (dropWhile (\<lambda>d. d \<noteq> CHR '']'') cs)) v')
            | _ \<Rightarrow> Inl TypeError))
      else Inl ValueError)"
  by pat_completeness auto
termination
  by (relation "measure (\<lambda>(cs, v). length cs)")
     (auto simp: less_Suc_eq_le intro: le_trans [OF diff_le_self length_dropWhile_le])

text \<open>
  \<open>build_string\<close> renders the items in order and stops at the first one that raises. A
  field looks its argument name up in the keyword arguments; a missing name is
  \<^verbatim>\<open>KeyError(name)\<close>.
\<close>

fun build_string :: "(json \<Rightarrow> string) \<Rightarrow> markup list \<Rightarrow> pydict \<Rightarrow> py_exception + string" where
  "build_string repr [] kwargs = Inr []"
| "build_string repr (Literal c # ms) kwargs =
     (case build_string repr ms kwargs of
        Inl e \<Rightarrow> Inl e
      | Inr out \<Rightarrow> Inr (c # out))"
| "build_string repr (Keyword name # ms) kwargs =
     (case kwargs name of
        None \<Rightarrow> Inl (KeyError name)
      | Some v \<Rightarrow>
          (case build_string repr ms kwargs of
             Inl e \<Rightarrow> Inl e
           | Inr out \<Rightarrow> Inr (format_value repr v @ out)))"
| "build_string repr (Extended name accesses # ms) kwargs =
     (case kwargs name of
        None \<Rightarrow> Inl (KeyError name)
      | Some v \<Rightarrow>
          (case get_items accesses v of
             Inl e \<Rightarrow> Inl e
           | Inr v' \<Rightarrow> Inl OutsideModel))"
| "build_string repr (Positional # ms) kwargs = Inl PositionalError"
| "build_string repr (Malformed # ms) kwargs = Inl ValueError"

definition format_str :: "(json \<Rightarrow> string) \<Rightarrow> string \<Rightarrow> pydict \<Rightarrow> py_exception + string" where
  "format_str repr template kwargs = build_string repr (markup_iter template) kwargs"

text \<open>
  The argument names \<^verbatim>\<open>format\<close> looks up for a template, in scan order, as far as the
  items go.
\<close>

fun keyword_fields :: "markup list \<Rightarrow> string list" where
  "keyword_fields [] = []"
| "keyword_fields (Literal c # ms) = keyword_fields ms"
| "keyword_fields (Keyword n # ms) = n # keyword_fields ms"
| "keyword_fields (Extended n accesses # ms) = [n]"
| "keyword_fields (m # ms) = []"

definition field_names :: "string \<Rightarrow> string list" where
  "field_names template = keyword_fields (markup_iter template)"

text \<open>A template whose replacement fields, as far as the items go, are all plain.\<close>

fun plain_markup :: "markup \<Rightarrow> bool" where
  "plain_markup (Extended n accesses) = False"
| "plain_markup m = True"

definition plain_fields :: "string \<Rightarrow> bool" where
  "plain_fields template = list_all plain_markup (markup_iter template)"

section \<open>The executor: \<^verbatim>\<open>subprocess.run(cmd_str, shell=True, capture_output=True, text=True, timeout=30)\<close>\<close>

text \<open>
  What the operating system does with a command line is a parameter \<open>sh\<close> of the model:
  \<^item> \<open>CannotStart msg\<close>: \<^verbatim>\<open>Popen\<close> raises (no shell, a NUL character in the command
    line, ...) and \<open>msg\<close> is the text of the exception;
  \<^item> \<open>Exits d rc out err forked\<close>: the shell exits by itself after the time \<open>d\<close> with the
    exit code \<open>rc\<close>, having written the bytes \<open>out\<close> and \<open>err\<close>;
  \<^item> \<open>NeverExits forked\<close>: the shell never exits by itself.

  \<open>forked\<close> are the commands that the shell has forked and that are running when the
  timeout expires. \<^verbatim>\<open>subprocess.run\<close> waits up to the timeout. A shell that is still running
  then is killed and waited for, and \<^verbatim>\<open>TimeoutExpired\<close> is raised; the kill goes to the
  shell only, not to the processes it has forked. A shell that exits exactly at the
  timeout counts as completed. With \<^verbatim>\<open>text=True\<close> the captured bytes of a completed run
  are decoded, first stdout and then stderr, and a \<^verbatim>\<open>UnicodeDecodeError\<close> leaves
  \<^verbatim>\<open>subprocess.run\<close>. The decoder \<open>decode\<close> is a parameter, since the encoding is that of
  the locale: it gives the text, or the message of the \<^verbatim>\<open>UnicodeDecodeError\<close>.
\<close>

datatype child =
    CannotStart string
  | Exits nat int string string "string list"
  | NeverExits "string list"

datatype process = Shell string | Forked string

datatype event = Spawn process | Exit process int | Kill process

datatype run_exception =
    TimeoutExpired string nat
  | UnicodeDecodeError string
  | OtherError string

record completed_process =
  cp_returncode :: int
  cp_stdout :: string
  cp_stderr :: string

definition timed_out :: "string \<Rightarrow> nat \<Rightarrow> string list \<Rightarrow> (run_exception + completed_process) \<times> event list" where
  "timed_out cmd_str timeout forked =
     (Inl (TimeoutExpired cmd_str timeout),
      Spawn (Shell cmd_str) # map (\<lambda>c. Spawn (Forked c)) forked @ [Kill (Shell cmd_str)])"

definition subprocess_run ::
  "(string \<Rightarrow> child) \<Rightarrow> (string \<Rightarrow> string + string) \<Rightarrow> string \<Rightarrow> nat
     \<Rightarrow> (run_exception + completed_process) \<times> event list" where
  "subprocess_run sh decode cmd_str timeout =
     (case sh cmd_str of
        CannotStart msg \<Rightarrow> (Inl (OtherError msg), [])
      | Exits d rc out err forked \<Rightarrow>
          if d \<le> timeout then
            (case decode out of
               Inl msg \<Rightarrow>
                 (Inl (UnicodeDecodeError msg), [Spawn (Shell cmd_str), Exit (Shell cmd_str) rc])
             | Inr stdout_text \<Rightarrow>
                 (case decode err of
                    Inl msg \<Rightarrow>
                      (Inl (UnicodeDecodeError msg),
                       [Spawn (Shell cmd_str), Exit (Shell cmd_str) rc])
                  | Inr stderr_text \<Rightarrow>
                      (Inr \<lparr>cp_returncode = rc, cp_stdout = stdout_text, cp_stderr = stderr_text\<rparr>,
                       [Spawn (Shell cmd_str), Exit (Shell cmd_str) rc])))
          else timed_out cmd_str timeout forked
      | NeverExits forked \<Rightarrow> timed_out cmd_str timeout forked)"

text \<open>\<^verbatim>\<open>str(e)\<close> of the exception, the detail of the 500 answer.\<close>

definition str_exception :: "run_exception \<Rightarrow> string" where
  "str_exception e =
     (case e of
        TimeoutExpired cmd t \<Rightarrow>
          ''Command '' @ [CHR 0x27] @ cmd @ [CHR 0x27] @ '' timed out after '' @ show_nat t @ '' seconds''
      | UnicodeDecodeError msg \<Rightarrow> msg
      | OtherError msg \<Rightarrow> msg)"



subsection \<open>Decoding under a UTF-8 locale\<close>

text \<open>
  The decoder of \<^verbatim>\<open>text=True\<close> when the encoding of the locale is UTF-8: strict decoding
  with the message of \<^verbatim>\<open>UnicodeDecodeError\<close>, then the translation of \<^verbatim>\<open>\r\n\<close> and \<^verbatim>\<open>\r\<close>
  to \<^verbatim>\<open>\n\<close>.
\<close>

definition hex_byte :: "nat \<Rightarrow> string" where
  "hex_byte b = [''0123456789abcdef'' ! (b div 16), ''0123456789abcdef'' ! (b mod 16)]"

definition utf8_codec :: string where
  "utf8_codec = [CHR 0x27] @ ''utf-8'' @ [CHR 0x27] @ '' codec can'' @ [CHR 0x27] @ ''t decode ''"

definition decode_message :: "nat list \<Rightarrow> decode_error \<Rightarrow> string" where
  "decode_message bytes e =
     (case e of
        DecodeError start end reason \<Rightarrow>
          if end = start + 1
          then utf8_codec @ ''byte 0x'' @ hex_byte (bytes ! start) @ '' in position ''
                 @ show_nat start @ '': '' @ reason
          else utf8_codec @ ''bytes in position '' @ show_nat start @ ''-''
                 @ show_nat (end - 1) @ '': '' @ reason)"

fun translate_newlines :: "string \<Rightarrow> string" where
  "translate_newlines [] = []"
| "translate_newlines [c] = (if c = CHR 0x0D then [CHR 0x0A] else [c])"
| "translate_newlines (c # d # cs) =
     (if c = CHR 0x0D \<and> d = CHR 0x0A then CHR 0x0A # translate_newlines cs
      else if c = CHR 0x0D then CHR 0x0A # translate_newlines (d # cs)
      else c # translate_newlines (d # cs))"

definition utf8_text :: "string \<Rightarrow> string + string" where
  "utf8_text bytes =
     (case code_points bytes of
        Inl e \<Rightarrow> Inl (decode_message (map of_char bytes) e)
      | Inr cps \<Rightarrow> Inr (translate_newlines bytes))"

section \<open>The dispatcher: \<^verbatim>\<open>execute_command\<close>\<close>

text \<open>
  The handler answers with the result dictionary, raises \<^verbatim>\<open>HTTPException\<close> with a status
  code and a detail, or lets another exception escape. The request body \<^verbatim>\<open>data\<close> is a
  JSON object. The calls to the logger only append to the log file and are left out.
  Together with the outcome the model returns the events of the processes, so that an
  empty list says that nothing was launched.
\<close>

record result =
  status :: string
  stdout :: string
  stderr :: string
  returncode :: int

datatype outcome =
    Response result
  | HTTPException nat string
  | Uncaught py_exception

text \<open>Python's truth value of a JSON value, for \<^verbatim>\<open>if not cmd_name\<close>.\<close>

fun truthy :: "json \<Rightarrow> bool" where
  "truthy JNull = False"
| "truthy (JBool b) = b"
| "truthy (JInt i) = (i \<noteq> 0)"
| "truthy (JStr s) = (s \<noteq> [])"
| "truthy (JArr xs) = (xs \<noteq> [])"
| "truthy (JObj kvs) = (kvs \<noteq> [])"

text \<open>
  \<^verbatim>\<open>cmd_name not in COMMANDS\<close> followed by \<^verbatim>\<open>COMMANDS[cmd_name]\<close>: the keys of the table
  are strings, so a number or a boolean is not among them, and a list or a dict cannot be
  hashed.
\<close>

fun lookup_command :: "pydict \<Rightarrow> json \<Rightarrow> py_exception + json option" where
  "lookup_command COMMANDS (JStr name) = Inr (COMMANDS name)"
| "lookup_command COMMANDS (JArr xs) = Inl TypeError"
| "lookup_command COMMANDS (JObj kvs) = Inl TypeError"
| "lookup_command COMMANDS v = Inr None"

text \<open>\<^verbatim>\<open>args = {k: v for k, v in data.items() if k != "command"}\<close>\<close>

definition request_args :: "pydict \<Rightarrow> pydict" where
  "request_args data = (\<lambda>k. if k \<noteq> ''command'' then data k else None)"

text \<open>
  \<^verbatim>\<open>cmd_template.format(**args)\<close>: only a string has the method \<^verbatim>\<open>format\<close>; on any other
  table entry the attribute lookup raises \<^verbatim>\<open>AttributeError\<close>.
\<close>

fun resolve :: "(json \<Rightarrow> string) \<Rightarrow> json \<Rightarrow> pydict \<Rightarrow> py_exception + string" where
  "resolve repr (JStr template) args = format_str repr template args"
| "resolve repr cmd_template args = Inl AttributeError"

text \<open>Lines 49 to 67: the run, the result dictionary, and \<^verbatim>\<open>except Exception\<close>.\<close>

definition run_command ::
  "(string \<Rightarrow> child) \<Rightarrow> (string \<Rightarrow> string + string) \<Rightarrow> string \<Rightarrow> outcome \<times> event list" where
  "run_command sh decode cmd_str =
     (case subprocess_run sh decode cmd_str 30 of
        (Inr r, evs) \<Rightarrow>
          (Response \<lparr>status = (if cp_returncode r = 0 then ''success'' else ''error''),
                     stdout = cp_stdout r,
                     stderr = cp_stderr r,
                     returncode = cp_returncode r\<rparr>, evs)
      | (Inl e, evs) \<Rightarrow> (HTTPException 500 (str_exception e), evs))"

definition missing_command_field :: string where
  "missing_command_field = ''Missing '' @ [CHR 0x27] @ ''command'' @ [CHR 0x27] @ '' field''"

definition execute_command ::
  "(json \<Rightarrow> string) \<Rightarrow> pydict \<Rightarrow> (string \<Rightarrow> child) \<Rightarrow> (string \<Rightarrow> string + string) \<Rightarrow> pydict
     \<Rightarrow> outcome \<times> event list" where
  "execute_command repr COMMANDS sh decode data =
     (case data ''command'' of
        None \<Rightarrow> (HTTPException 400 missing_command_field, [])
      | Some cmd_name \<Rightarrow>
          if \<not> truthy cmd_name then (HTTPException 400 missing_command_field, [])
          else
            (case lookup_command COMMANDS cmd_name of
               Inl e \<Rightarrow> (Uncaught e, [])
             | Inr None \<Rightarrow> (HTTPException 404 ''Unknown command'', [])
             | Inr (Some cmd_template) \<Rightarrow>
                 (case resolve repr cmd_template (request_args data) of
                    Inl (KeyError k) \<Rightarrow> (HTTPException 400 (''Missing argument: '' @ k), [])
                  | Inl e \<Rightarrow> (Uncaught e, [])
                  | Inr cmd_str \<Rightarrow> run_command sh decode cmd_str)))"

section \<open>The listing: how \<^verbatim>\<open>get_commands\<close> reads a table entry\<close>

text \<open>
  \<^verbatim>\<open>get_commands\<close> accepts both forms of a table entry: for a dict it shows
  \<^verbatim>\<open>template.get("cmd", "")\<close>, otherwise the entry itself.
\<close>

fun template_str :: "json \<Rightarrow> json" where
  "template_str (JObj kvs) = (case map_of kvs ''cmd'' of None \<Rightarrow> JStr [] | Some t \<Rightarrow> t)"
| "template_str template = template"




section \<open>Templates written as segments\<close>

text \<open>
  To say what resolution does to the text of a template, a template is written as a
  sequence of segments: a stretch of text without braces, a placeholder \<^verbatim>\<open>{name}\<close>, or
  one of the two doubled braces. \<open>segment_source\<close> is the text of a segment in the
  template and \<open>segment_output\<close> the text expected for it in the command line: a string
  value as it is, another value as \<^verbatim>\<open>str\<close> gives it.
\<close>

datatype segment = Text string | Hole string | OpenBrace | CloseBrace

fun segment_source :: "segment \<Rightarrow> string" where
  "segment_source (Text s) = s"
| "segment_source (Hole n) = CHR ''{'' # n @ ''}''"
| "segment_source OpenBrace = ''{{''"
| "segment_source CloseBrace = ''}}''"

fun value_text :: "(json \<Rightarrow> string) \<Rightarrow> json option \<Rightarrow> string" where
  "value_text repr (Some (JStr v)) = v"
| "value_text repr (Some v) = format_value repr v"
| "value_text repr None = []"

fun segment_output :: "(json \<Rightarrow> string) \<Rightarrow> pydict \<Rightarrow> segment \<Rightarrow> string" where
  "segment_output repr args (Text s) = s"
| "segment_output repr args (Hole n) = value_text repr (args n)"
| "segment_output repr args OpenBrace = ''{''"
| "segment_output repr args CloseBrace = ''}''"

fun supplied :: "pydict \<Rightarrow> segment \<Rightarrow> bool" where
  "supplied args (Hole n) = (args n \<noteq> None)"
| "supplied args seg = True"

text \<open>
  A plain name: none of the characters that end a field name or start an access, a
  conversion or a format specification, and not a positional name (not empty and not
  made of decimal digits only).
\<close>

definition plain_name :: "string \<Rightarrow> bool" where
  "plain_name n = (list_all (\<lambda>c. c \<notin> set ''{}.[!:'') n \<and> \<not> positional_name n)"

fun plain_segment :: "segment \<Rightarrow> bool" where
  "plain_segment (Text s) = list_all (\<lambda>c. c \<noteq> CHR ''{'' \<and> c \<noteq> CHR ''}'') s"
| "plain_segment (Hole n) = plain_name n"
| "plain_segment seg = True"

fun segment_markup :: "segment \<Rightarrow> markup list" where
  "segment_markup (Text s) = map Literal s"
| "segment_markup (Hole n) = [Keyword n]"
| "segment_markup OpenBrace = [Literal CHR ''{'']"
| "segment_markup CloseBrace = [Literal CHR ''}'']"

definition template_of :: "segment list \<Rightarrow> string" where
  "template_of segs = concat (map segment_source segs)"

section \<open>An example table, shell and requests\<close>

text \<open>
  A command table with both forms of entry, a shell whose children behave in the
  different ways, and the rendering of lists and dicts used with them (the examples
  render none). The examples decode with \<open>utf8_text\<close>.
\<close>

definition example_commands :: pydict where
  "example_commands = map_of
     [(''greet'', JStr ''echo {msg}''),
      (''fail'', JStr ''exit {code}''),
      (''wait'', JStr ''sleep {seconds}''),
      (''pause'', JStr ''sleep {seconds}; true''),
      (''dump'', JStr ''cat {file}''),
      (''copy'', JStr ''cp {src} {dst}''),
      (''self'', JStr ''{a} {command}''),
      (''numbered'', JStr ''{0} {command}''),
      (''brace'', JStr ''echo }}''),
      (''awk'', JStr ''awk {print $1} {file}''),
      (''pick'', JStr ''echo {opts[level]}''),
      (''ls'', JObj [(''cmd'', JStr ''ls {dir}''), (''description'', JStr ''List files'')])]"

definition example_shell :: "string \<Rightarrow> child" where
  "example_shell cmd_str =
     (if cmd_str = ''echo hi'' then Exits 1 0 ''hi'' [] []
      else if cmd_str = ''exit 2'' then Exits 1 2 [] [] []
      else if cmd_str = ''cat blob'' then Exits 1 0 [CHR 0xFF] [] []
      else if cmd_str = ''sleep 60'' then Exits 60 0 [] [] []
      else if cmd_str = ''sleep 60; true'' then Exits 60 0 [] [] [''sleep 60'']
      else if cmd_str = ''sleep forever'' then NeverExits []
      else CannotStart ''no shell'')"

definition example_repr :: "json \<Rightarrow> string" where
  "example_repr v = ''[]''"

definition request :: "(string \<times> json) list \<Rightarrow> pydict" where
  "request items = map_of items"

section \<open>Facts about the resolver\<close>




lemma build_string_literals:
  "build_string repr (map Literal s @ ms) kwargs =
     (case build_string repr ms kwargs of Inl e \<Rightarrow> Inl e | Inr out \<Rightarrow> Inr (s @ out))"
  by (induction s) (auto split: sum.splits)




subsection \<open>Scanning a template written as segments\<close>

lemma markup_iter_text:
  "list_all (\<lambda>c. c \<noteq> CHR ''{'' \<and> c \<noteq> CHR ''}'') s \<Longrightarrow>
     markup_iter (s @ rest) = map Literal s @ markup_iter rest"
  by (induction s) auto

lemma scan_name_plain:
  "list_all (\<lambda>c. c \<notin> set ''{}.[!:'') n \<Longrightarrow>
     scan_name (n @ CHR ''}'' # rest) = Some (n, CHR ''}'', rest)"
  by (induction n) auto

lemma parse_field_plain:
  "list_all (\<lambda>c. c \<notin> set ''{}.[!:'') n \<Longrightarrow>
     parse_field (n @ CHR ''}'' # rest) = Some (n, False, rest)"
  by (simp add: parse_field_def scan_name_plain)

lemma takeWhile_plain:
  "list_all (\<lambda>c. c \<notin> set ''{}.[!:'') n \<Longrightarrow>
     takeWhile (\<lambda>c. c \<noteq> CHR ''.'' \<and> c \<noteq> CHR ''['') n = n"
  by (simp add: takeWhile_eq_all_conv list_all_iff)

lemma classify_plain_name: "plain_name n \<Longrightarrow> classify_field n False = Keyword n"
proof -
  assume plain: "plain_name n"
  then have whole: "takeWhile (\<lambda>c. c \<noteq> CHR ''.'' \<and> c \<noteq> CHR ''['') n = n"
    by (simp add: plain_name_def takeWhile_plain)
  have "takeWhile (\<lambda>c. c \<noteq> CHR ''.'' \<and> c \<noteq> CHR ''['') n
          @ dropWhile (\<lambda>c. c \<noteq> CHR ''.'' \<and> c \<noteq> CHR ''['') n = n"
    by (rule takeWhile_dropWhile_id)
  then have none: "dropWhile (\<lambda>c. c \<noteq> CHR ''.'' \<and> c \<noteq> CHR ''['') n = []"
    unfolding whole by simp
  from plain have "\<not> positional_name n" by (simp add: plain_name_def)
  then show ?thesis
    unfolding classify_field_def Let_def whole none by simp
qed

lemma positional_empty: "positional_name []"
  by (simp add: positional_name_def code_points_def)

lemma plain_name_Cons: "plain_name n \<Longrightarrow> \<exists>c cs. n = c # cs \<and> c \<noteq> CHR ''{''"
  by (cases n) (auto simp: plain_name_def positional_empty)

lemma markup_iter_hole:
  assumes "plain_name n"
  shows "markup_iter (CHR ''{'' # n @ CHR ''}'' # rest) = Keyword n # markup_iter rest"
proof -
  from assms obtain c cs where n: "n = c # cs" and c: "c \<noteq> CHR ''{''"
    using plain_name_Cons by blast
  from assms have pf: "parse_field (n @ CHR ''}'' # rest) = Some (n, False, rest)"
    by (simp add: plain_name_def parse_field_plain)
  have "markup_iter (CHR ''{'' # n @ CHR ''}'' # rest) =
          (case parse_field (n @ CHR ''}'' # rest) of
             None \<Rightarrow> [Malformed]
           | Some (name, extended, rest') \<Rightarrow>
               if continues (classify_field name extended)
               then classify_field name extended # markup_iter rest'
               else [classify_field name extended])"
    using c by (simp add: n)
  then show ?thesis
    using assms by (simp add: pf classify_plain_name)
qed

lemma markup_iter_segment:
  "plain_segment seg \<Longrightarrow>
     markup_iter (segment_source seg @ rest) = segment_markup seg @ markup_iter rest"
  by (cases seg)
     (simp_all add: markup_iter_text markup_iter_hole del: markup_iter.simps(2), simp_all)

lemma markup_iter_segments:
  "list_all plain_segment segs \<Longrightarrow>
     markup_iter (template_of segs) = concat (map segment_markup segs)"
  unfolding template_of_def
  by (induction segs) (simp_all add: markup_iter_segment del: markup_iter.simps(2))

lemma value_text_Some: "value_text repr (Some v) = format_value repr v"
  by (cases v) (simp_all add: format_value_def)

lemma build_string_segments:
  "list_all (supplied kwargs) segs \<Longrightarrow>
     build_string repr (concat (map segment_markup segs)) kwargs =
       Inr (concat (map (segment_output repr kwargs) segs))"
proof (induction segs)
  case Nil
  then show ?case by simp
next
  case (Cons seg segs)
  then have IH: "build_string repr (concat (map segment_markup segs)) kwargs =
       Inr (concat (map (segment_output repr kwargs) segs))" by simp
  show ?case
  proof (cases seg)
    case (Hole n)
    with Cons.prems obtain v where "kwargs n = Some v" by auto
    then show ?thesis using Hole IH by (simp add: value_text_Some)
  qed (simp_all add: IH build_string_literals)
qed

subsection \<open>The processes after a timeout\<close>



subsection \<open>The dispatcher once the command is found\<close>

lemma execute_command_resolved:
  assumes "data ''command'' = Some (JStr name)" and "name \<noteq> []"
    and "COMMANDS name = Some cmd_template"
  shows "execute_command repr COMMANDS sh decode data =
           (case resolve repr cmd_template (request_args data) of
              Inl (KeyError k) \<Rightarrow> (HTTPException 400 (''Missing argument: '' @ k), [])
            | Inl e \<Rightarrow> (Uncaught e, [])
            | Inr cmd_str \<Rightarrow> run_command sh decode cmd_str)"
  using assms by (simp add: execute_command_def)


lemmas example_defs =
  example_commands_def example_shell_def example_repr_def request_def request_args_def
  format_str_def field_names_def plain_fields_def parse_field_def classify_field_def
  positional_name_def code_points_def emit_def continuation_def decimal_digit_def
  decimal_zeros_def

section \<open>Properties of the dispatcher\<close>

text \<open>
  Claim C1. A table entry in the structured form (a dict with \<^verbatim>\<open>cmd\<close> and
  \<^verbatim>\<open>description\<close>) is not dispatched by \<^verbatim>\<open>execute_command\<close>: the entry has no method
  \<^verbatim>\<open>format\<close>, the \<^verbatim>\<open>AttributeError\<close> is not caught and no child is launched, although
  \<^verbatim>\<open>get_commands\<close> reads the template of the same entry.
\<close>

theorem structured_entry_raises:
  "execute_command example_repr example_commands example_shell utf8_text
     (request [(''command'', JStr ''ls''), (''dir'', JStr ''/tmp'')]) =
   (Uncaught AttributeError, [])
   \<and> example_commands ''ls'' =
       Some (JObj [(''cmd'', JStr ''ls {dir}''), (''description'', JStr ''List files'')])
   \<and> template_str (JObj [(''cmd'', JStr ''ls {dir}''), (''description'', JStr ''List files'')]) =
       JStr ''ls {dir}''"
  by (simp add: execute_command_def example_commands_def request_def)





text \<open>
  Claim C6. A request whose command name is present but is not a key of the table is
  answered with 404 \<^verbatim>\<open>Unknown command\<close>, and no child process is launched (the list of
  events is empty).
\<close>

theorem unknown_command_not_found:
  assumes "data ''command'' = Some (JStr name)" and "name \<noteq> []"
    and "COMMANDS name = None"
  shows "execute_command repr COMMANDS sh decode data =
           (HTTPException 404 ''Unknown command'', [])"
  using assms by (simp add: execute_command_def)

theorem unknown_command_not_found_witness:
  "execute_command example_repr example_commands example_shell utf8_text
     (request [(''command'', JStr ''reboot'')]) = (HTTPException 404 ''Unknown command'', [])"
proof -
  let ?data = "request [(''command'', JStr ''reboot'')]"
  have h1: "?data ''command'' = Some (JStr ''reboot'')" by (simp add: request_def)
  have h2: "''reboot'' \<noteq> []" by simp
  have h3: "example_commands ''reboot'' = None" by (simp add: example_commands_def)
  show ?thesis
    by (rule unknown_command_not_found
          [where data = ?data and COMMANDS = example_commands, OF h1 h2 h3])
qed




text \<open>
  Claim C7, as the code has it. A request without a command name (the key is absent, or
  its value is empty or otherwise false) is rejected with the bad-request answer 400
  \<^verbatim>\<open>Missing 'command' field\<close> before the table is looked at, before resolution and before
  any launch: the answer does not depend on the table or the shell, and no child is
  spawned. This differs from the not-found answer to an unknown name. The status
  classes of the failures are 404 for an unknown command, 400 for a missing argument and
  500 for a launch failure or a timeout.
\<close>

theorem missing_command_rejected_first:
  "(data ''command'' = None \<or> (\<exists>v. data ''command'' = Some v \<and> \<not> truthy v) \<longrightarrow>
      execute_command repr COMMANDS sh decode data =
        (HTTPException 400 missing_command_field, []))
   \<and> (data ''command'' = Some (JStr name) \<and> name \<noteq> [] \<longrightarrow>
        (COMMANDS name = None \<longrightarrow>
           execute_command repr COMMANDS sh decode data =
             (HTTPException 404 ''Unknown command'', []))
      \<and> (COMMANDS name = Some (JStr template) \<and>
           format_str repr template (request_args data) = Inl (KeyError k) \<longrightarrow>
           execute_command repr COMMANDS sh decode data =
             (HTTPException 400 (''Missing argument: '' @ k), []))
      \<and> (COMMANDS name = Some (JStr template) \<and>
           format_str repr template (request_args data) = Inr cmd_str \<and>
           sh cmd_str = CannotStart msg \<longrightarrow>
           execute_command repr COMMANDS sh decode data = (HTTPException 500 msg, []))
      \<and> (COMMANDS name = Some (JStr template) \<and>
           format_str repr template (request_args data) = Inr cmd_str \<and>
           (sh cmd_str = NeverExits forked \<or>
            sh cmd_str = Exits d rc out err forked \<and> 30 < d) \<longrightarrow>
           fst (execute_command repr COMMANDS sh decode data) =
             HTTPException 500 (str_exception (TimeoutExpired cmd_str 30))))"
proof -
  have absent: "execute_command repr COMMANDS sh decode data =
      (HTTPException 400 missing_command_field, [])"
    if "data ''command'' = None \<or> (\<exists>v. data ''command'' = Some v \<and> \<not> truthy v)"
    using that by (auto simp: execute_command_def)
  have found: "execute_command repr COMMANDS sh decode data =
      (case format_str repr template (request_args data) of
         Inl (KeyError k) \<Rightarrow> (HTTPException 400 (''Missing argument: '' @ k), [])
       | Inl e \<Rightarrow> (Uncaught e, [])
       | Inr cmd_str \<Rightarrow> run_command sh decode cmd_str)"
    if "data ''command'' = Some (JStr name)" "name \<noteq> []" "COMMANDS name = Some (JStr template)"
    using that by (simp add: execute_command_resolved)
  have unknown: "execute_command repr COMMANDS sh decode data =
      (HTTPException 404 ''Unknown command'', [])"
    if "data ''command'' = Some (JStr name)" "name \<noteq> []" "COMMANDS name = None"
    using that by (simp add: execute_command_def)
  have launch: "run_command sh decode cmd_str = (HTTPException 500 msg, [])"
    if "sh cmd_str = CannotStart msg"
    using that by (simp add: run_command_def subprocess_run_def str_exception_def)
  have late: "fst (run_command sh decode cmd_str) =
      HTTPException 500 (str_exception (TimeoutExpired cmd_str 30))"
    if "sh cmd_str = NeverExits forked \<or> sh cmd_str = Exits d rc out err forked \<and> 30 < d"
    using that by (auto simp: run_command_def subprocess_run_def timed_out_def)
  show ?thesis
    using absent unknown found launch late by simp
qed

theorem missing_command_rejected_first_witness:
  "execute_command example_repr example_commands example_shell utf8_text
       (request [(''msg'', JStr ''hi'')]) =
     (HTTPException 400 missing_command_field, [])
   \<and> execute_command example_repr example_commands example_shell utf8_text
       (request [(''command'', JStr []), (''msg'', JStr ''hi'')]) =
     (HTTPException 400 missing_command_field, [])
   \<and> execute_command example_repr example_commands example_shell utf8_text
       (request [(''command'', JStr ''reboot'')]) =
     (HTTPException 404 ''Unknown command'', [])
   \<and> execute_command example_repr example_commands example_shell utf8_text
       (request [(''command'', JStr ''greet'')]) =
     (HTTPException 400 ''Missing argument: msg'', [])
   \<and> execute_command example_repr example_commands example_shell utf8_text
       (request [(''command'', JStr ''greet''), (''msg'', JStr ''ho'')]) =
     (HTTPException 500 ''no shell'', [])
   \<and> fst (execute_command example_repr example_commands example_shell utf8_text
       (request [(''command'', JStr ''wait''), (''seconds'', JStr ''forever'')])) =
     HTTPException 500 (str_exception (TimeoutExpired ''sleep forever'' 30))"
proof -
  let ?absent = "request [(''msg'', JStr ''hi'')]"
  let ?empty = "request [(''command'', JStr []), (''msg'', JStr ''hi'')]"
  let ?unknown = "request [(''command'', JStr ''reboot'')]"
  let ?short = "request [(''command'', JStr ''greet'')]"
  let ?launch = "request [(''command'', JStr ''greet''), (''msg'', JStr ''ho'')]"
  let ?late = "request [(''command'', JStr ''wait''), (''seconds'', JStr ''forever'')]"
  have a1: "?absent ''command'' = None \<or> (\<exists>v. ?absent ''command'' = Some v \<and> \<not> truthy v)"
    by (simp add: request_def)
  have a2: "?empty ''command'' = None \<or> (\<exists>v. ?empty ''command'' = Some v \<and> \<not> truthy v)"
    by (simp add: request_def)
  have u: "?unknown ''command'' = Some (JStr ''reboot'') \<and> ''reboot'' \<noteq> []"
      "example_commands ''reboot'' = None"
    by (simp_all add: request_def example_commands_def)
  have m: "?short ''command'' = Some (JStr ''greet'') \<and> ''greet'' \<noteq> []"
      "example_commands ''greet'' = Some (JStr ''echo {msg}'') \<and>
       format_str example_repr ''echo {msg}'' (request_args ?short) = Inl (KeyError ''msg'')"
    by (simp_all add: example_defs)
  have l: "?launch ''command'' = Some (JStr ''greet'') \<and> ''greet'' \<noteq> []"
      "example_commands ''greet'' = Some (JStr ''echo {msg}'') \<and>
       format_str example_repr ''echo {msg}'' (request_args ?launch) = Inr ''echo ho'' \<and>
       example_shell ''echo ho'' = CannotStart ''no shell''"
    by (simp_all add: example_defs format_value_def)
  have t: "?late ''command'' = Some (JStr ''wait'') \<and> ''wait'' \<noteq> []"
      "example_commands ''wait'' = Some (JStr ''sleep {seconds}'') \<and>
       format_str example_repr ''sleep {seconds}'' (request_args ?late) = Inr ''sleep forever'' \<and>
       (example_shell ''sleep forever'' = NeverExits [] \<or>
        example_shell ''sleep forever'' = Exits 0 0 [] [] [] \<and> 30 < (0::nat))"
    by (simp_all add: example_defs format_value_def)
  note inst = missing_command_rejected_first
    [where repr = example_repr and COMMANDS = example_commands and sh = example_shell
       and decode = utf8_text]
  have c1: "execute_command example_repr example_commands example_shell utf8_text ?absent =
      (HTTPException 400 missing_command_field, [])"
    using inst [where data = ?absent] a1 by blast
  have c2: "execute_command example_repr example_commands example_shell utf8_text ?empty =
      (HTTPException 400 missing_command_field, [])"
    using inst [where data = ?empty] a2 by blast
  have c3: "execute_command example_repr example_commands example_shell utf8_text ?unknown =
      (HTTPException 404 ''Unknown command'', [])"
    using inst [where data = ?unknown and name = "''reboot''"] u by blast
  have c4: "execute_command example_repr example_commands example_shell utf8_text ?short =
      (HTTPException 400 (''Missing argument: '' @ ''msg''), [])"
    using inst [where data = ?short and name = "''greet''" and template = "''echo {msg}''"
        and k = "''msg''"] m by blast
  have c5: "execute_command example_repr example_commands example_shell utf8_text ?launch =
      (HTTPException 500 ''no shell'', [])"
    using inst [where data = ?launch and name = "''greet''" and template = "''echo {msg}''"
        and cmd_str = "''echo ho''" and msg = "''no shell''"] l by blast
  have c6: "fst (execute_command example_repr example_commands example_shell utf8_text ?late) =
      HTTPException 500 (str_exception (TimeoutExpired ''sleep forever'' 30))"
    using inst [where data = ?late and name = "''wait''" and template = "''sleep {seconds}''"
        and cmd_str = "''sleep forever''" and forked = "[]" and d = 0 and rc = 0
        and out = "[]" and err = "[]"] t
    by blast
  from c1 c2 c3 c4 c5 c6 show ?thesis by simp
qed

text \<open>
  The claim as the specification words it fails: the rejection of a request without a
  command name is not of the class of an unknown command (not-found, 404).
\<close>

theorem missing_command_counterexample:
  "request [(''msg'', JStr ''hi'')] ''command'' = None
   \<and> fst (execute_command example_repr example_commands example_shell utf8_text
       (request [(''msg'', JStr ''hi'')])) = HTTPException 400 missing_command_field
   \<and> fst (execute_command example_repr example_commands example_shell utf8_text
       (request [(''msg'', JStr ''hi'')])) \<noteq> HTTPException 404 ''Unknown command''
   \<and> fst (execute_command example_repr example_commands example_shell utf8_text
       (request [(''command'', JStr ''reboot'')])) = HTTPException 404 ''Unknown command''"
  by (simp add: execute_command_def request_def example_commands_def)




text \<open>
  Claim C3, as the code has it. A template made of text without braces, placeholders
  with plain names and doubled braces, resolved with arguments that hold a value for
  every placeholder, gives the template's text with each placeholder replaced by the
  text of its value and each doubled brace by a single one. A string value is inserted
  as it is, without quoting or escaping; any other value is converted by \<^verbatim>\<open>str\<close>.
  Nothing else changes.
\<close>

theorem resolution_substitutes_verbatim:
  assumes "list_all plain_segment segs" and "list_all (supplied args) segs"
  shows "format_str repr (template_of segs) args =
           Inr (concat (map (segment_output repr args) segs))"
  using assms
  by (simp add: format_str_def markup_iter_segments build_string_segments)

theorem resolution_substitutes_verbatim_witness:
  "template_of [Text ''echo '', Hole ''msg'', Text '' > '', OpenBrace, Hole ''out file'',
       CloseBrace, Hole ''n''] =
     ''echo {msg} > {{{out file}}}{n}''
   \<and> format_str example_repr ''echo {msg} > {{{out file}}}{n}''
       (request [(''msg'', JStr ''a; rm -rf $HOME''), (''out file'', JStr ''f g''),
                 (''n'', JInt 7)]) =
     Inr ''echo a; rm -rf $HOME > {f g}7''"
proof -
  let ?segs = "[Text ''echo '', Hole ''msg'', Text '' > '', OpenBrace, Hole ''out file'',
    CloseBrace, Hole ''n'']"
  let ?args = "request [(''msg'', JStr ''a; rm -rf $HOME''), (''out file'', JStr ''f g''),
    (''n'', JInt 7)]"
  have h1: "list_all plain_segment ?segs"
    by (simp add: plain_name_def positional_name_def code_points_def emit_def
          decimal_digit_def decimal_zeros_def)
  have h2: "list_all (supplied ?args) ?segs" by (simp add: request_def)
  have src: "template_of ?segs = ''echo {msg} > {{{out file}}}{n}''"
    by (simp add: template_of_def)
  have out: "concat (map (segment_output example_repr ?args) ?segs) =
      ''echo a; rm -rf $HOME > {f g}7''"
    by (simp add: request_def format_value_def show_int_def)
  show ?thesis
    using resolution_substitutes_verbatim [where repr = example_repr, OF h1 h2]
    unfolding src out by (simp add: src)
qed

text \<open>
  The claim as the specification words it fails: a template without any placeholder is
  not left unchanged when it holds a doubled brace, and a value that is not a string is
  converted to text. A single brace in the text and a placeholder whose name is a
  number make the resolution fail although every key is there.
\<close>

theorem doubled_brace_counterexample:
  "field_names ''echo }}'' = []
   \<and> format_str example_repr ''echo }}'' (request []) = Inr ''echo }''
   \<and> format_str example_repr ''echo }}'' (request []) \<noteq> Inr ''echo }}''
   \<and> format_str example_repr ''echo {flag} {n}''
       (request [(''flag'', JBool True), (''n'', JNull)]) = Inr ''echo True None''
   \<and> format_str example_repr ''echo }'' (request []) = Inl ValueError
   \<and> format_str example_repr ''echo {0}'' (request [(''0'', JStr ''x'')]) = Inl PositionalError"
  by (simp add: example_defs format_value_def)







end
